theory Spec2Isabelle
  imports Complex_Main
begin

unbundle bit_operations_syntax

section \<open>CanvasViewer: the thumbnail scaler and the panel controller\<close>

text \<open>
  A shallow embedding of \<^verbatim>\<open>canvasviewer.py\<close>: the class \<^verbatim>\<open>Config\<close>, the
  background \<^verbatim>\<open>Worker\<close> with its scaling pipeline, and the dock widget
  \<^verbatim>\<open>Canvasviewer\<close> with its thread bookkeeping and its press/release state machine.

  Python's unbounded integers are \<open>int\<close>. Python floats (the device pixel ratio and
  the quotients computed from it) are exact real numbers, \<open>real\<close>: rounding of binary
  floating point is not modelled, so where an exact product or quotient lies within a
  rounding error of an integer, \<^verbatim>\<open>int\<close> of the float can differ from the model by one. The widget toolkit and the host application are
  outside the repository; what they return and whether one of their calls raises is
  an input of the model.
\<close>

subsection \<open>Python values\<close>

datatype exn = TypeError | ZeroDivisionError | AttributeError | HostError

text \<open>\<^verbatim>\<open>int(x)\<close> on a float truncates towards zero.\<close>

definition py_int :: "real \<Rightarrow> int" where
  "py_int x = (if 0 \<le> x then \<lfloor>x\<rfloor> else \<lceil>x\<rceil>)"

text \<open>
  \<^verbatim>\<open>min(x)\<close> with a single argument iterates over it; a number is not iterable, so
  the call raises \<^verbatim>\<open>TypeError\<close> whatever the number is.
\<close>

definition py_min_scalar :: "real \<Rightarrow> exn + real" where
  "py_min_scalar x = Inl TypeError"

text \<open>
  \<^verbatim>\<open>signal.receivers()\<close> on a bound signal of PyQt5, here with the number of connected
  slots: a bound signal has the attributes \<^verbatim>\<open>connect\<close>, \<^verbatim>\<open>disconnect\<close>, \<^verbatim>\<open>emit\<close> and
  \<^verbatim>\<open>signal\<close> only, so the lookup of \<^verbatim>\<open>receivers\<close> raises \<^verbatim>\<open>AttributeError\<close> whatever
  the signal is.
\<close>

definition signal_receivers :: "nat \<Rightarrow> exn + nat" where
  "signal_receivers n = Inl AttributeError"

text \<open>\<^verbatim>\<open>a / b\<close>: true division, \<^verbatim>\<open>ZeroDivisionError\<close> on a zero divisor.\<close>

definition py_truediv :: "real \<Rightarrow> real \<Rightarrow> exn + real" where
  "py_truediv a b = (if b = 0 then Inl ZeroDivisionError else Inr (a / b))"

subsection \<open>Config\<close>

record config =
  min_width :: int
  min_height :: int
  margin :: int
  screen_ratio :: int
  ENABLE_DPI_CORRECTION :: bool
  thumbnail_min_size :: int
  thumbnail_upscale_factor :: int
  use_hybrid_scaling :: bool
  state_check_interval :: int
  idle_check_interval :: int
  idle_refresh_interval :: int

definition Config :: config where
  "Config = \<lparr> min_width = 320, min_height = 180, margin = 2, screen_ratio = 2,
     ENABLE_DPI_CORRECTION = True,
     thumbnail_min_size = 140, thumbnail_upscale_factor = 2, use_hybrid_scaling = True,
     state_check_interval = 100, idle_check_interval = 300, idle_refresh_interval = 400 \<rparr>"

subsection \<open>Images of the widget toolkit\<close>

text \<open>
  A \<^verbatim>\<open>QImage\<close> is its pixel size, its device pixel ratio and the document content it
  was captured from (a number standing for the pixels). The null image \<^verbatim>\<open>QImage()\<close>
  has no pixels.
\<close>

record qimage =
  img_width :: int
  img_height :: int
  img_dpr :: real
  img_content :: nat

definition QImage_null :: qimage where
  "QImage_null = \<lparr> img_width = 0, img_height = 0, img_dpr = 1, img_content = 0 \<rparr>"

definition isNull :: "qimage \<Rightarrow> bool" where
  "isNull img = (img_width img < 1 \<or> img_height img < 1)"

datatype aspect_mode = IgnoreAspectRatio | KeepAspectRatio | KeepAspectRatioByExpanding

datatype transform_mode = FastTransformation | SmoothTransformation

text \<open>
  Toolkit function, not part of the repository: \<^verbatim>\<open>QSize::scaled\<close> of Qt 5, the size
  \<open>(wd, ht)\<close> fitted to the size \<open>(swd, sht)\<close>. All operands are positive where
  \<open>scaled\<close> below calls it, so the truncating division of C++ is \<open>div\<close>.
\<close>

definition qsize_scaled :: "int \<times> int \<Rightarrow> int \<times> int \<Rightarrow> aspect_mode \<Rightarrow> int \<times> int" where
  "qsize_scaled sz s am =
     (let wd = fst sz; ht = snd sz; swd = fst s; sht = snd s in
      if am = IgnoreAspectRatio \<or> wd = 0 \<or> ht = 0 then (swd, sht)
      else
        let rw = sht * wd div ht;
            useHeight = (if am = KeepAspectRatio then rw \<le> swd else rw \<ge> swd)
        in if useHeight then (rw, sht) else (swd, swd * ht div wd))"

text \<open>
  Toolkit function, not part of the repository: \<^verbatim>\<open>QImage::scaled\<close> of Qt 5. A null
  image and an empty target size give the null image; otherwise the image is resampled
  to the fitted size, each side at least one pixel, and keeps its device pixel ratio.
  The transformation mode chooses the resampling filter, not the size.
\<close>

definition scaled :: "qimage \<Rightarrow> int \<Rightarrow> int \<Rightarrow> aspect_mode \<Rightarrow> transform_mode \<Rightarrow> qimage" where
  "scaled img w h am tm =
     (if isNull img then QImage_null
      else if w < 1 \<or> h < 1 then QImage_null
      else
        let newSize = qsize_scaled (img_width img, img_height img) (w, h) am
        in img\<lparr> img_width := max (fst newSize) 1, img_height := max (snd newSize) 1 \<rparr>)"

definition devicePixelRatio :: "qimage \<Rightarrow> real" where
  "devicePixelRatio img = (if isNull img then 1 else img_dpr img)"

definition setDevicePixelRatio :: "qimage \<Rightarrow> real \<Rightarrow> qimage" where
  "setDevicePixelRatio img r = (if isNull img then img else img\<lparr> img_dpr := r \<rparr>)"

subsection \<open>Worker\<close>

text \<open>
  The three attributes of \<^verbatim>\<open>Worker\<close>, and the number of slots connected to its
  signal \<^verbatim>\<open>finished\<close>.
\<close>

record worker =
  projection :: qimage
  width :: int
  height :: int
  finished_receivers :: nat

text \<open>
  The toolkit calls of \<^verbatim>\<open>Worker.process\<close>, in the order they are made. Each is a
  place where the \<^verbatim>\<open>try\<close> block can be left by an exception.
\<close>

datatype process_site =
    At_devicePixelRatio | At_presmooth | At_fast_scaled | At_final_scaled
  | At_setDevicePixelRatio

text \<open>What the worker does to the outside: the trace of \<^verbatim>\<open>process\<close>.\<close>

datatype worker_call =
    Call_scaled qimage int int aspect_mode transform_mode
  | Call_setDevicePixelRatio qimage real
  | Call_print_worker_error
  | Call_finished_emit qimage

text \<open>
  The \<^verbatim>\<open>except\<close> branch: report, then emit the null image. The trace holds the calls
  made so far, the one that raised included.
\<close>

definition process_except :: "worker_call list \<Rightarrow> worker_call list" where
  "process_except tr = tr @ [Call_print_worker_error, Call_finished_emit QImage_null]"

text \<open>
  \<^verbatim>\<open>Worker.process\<close>, given which of its toolkit calls raise. The upscale factor is
  the only constant of \<^verbatim>\<open>Config\<close> it reads.
\<close>

definition process :: "config \<Rightarrow> (process_site \<Rightarrow> bool) \<Rightarrow> worker \<Rightarrow> worker_call list" where
  "process cfg praises w =
     (if praises At_devicePixelRatio then process_except []
      else
        let dpi_scale = devicePixelRatio (projection w);
            physical_width = py_int (of_int (width w) * dpi_scale);
            physical_height = py_int (of_int (height w) * dpi_scale);
            tr1 = [Call_scaled (projection w)
                     (img_width (projection w) * 2) (img_height (projection w) * 2)
                     KeepAspectRatio SmoothTransformation]
        in if praises At_presmooth then process_except tr1
        else
          let smoothed = scaled (projection w)
                (img_width (projection w) * 2) (img_height (projection w) * 2)
                KeepAspectRatio SmoothTransformation;
              double_width = physical_width * thumbnail_upscale_factor cfg;
              double_height = physical_height * thumbnail_upscale_factor cfg;
              tr2 = tr1 @ [Call_scaled smoothed double_width double_height
                             KeepAspectRatio FastTransformation]
          in if praises At_fast_scaled then process_except tr2
          else
            let fast_scaled = scaled smoothed double_width double_height
                  KeepAspectRatio FastTransformation;
                tr3 = tr2 @ [Call_scaled fast_scaled physical_width physical_height
                               KeepAspectRatio SmoothTransformation]
            in if praises At_final_scaled then process_except tr3
            else
              let final_scaled = scaled fast_scaled physical_width physical_height
                    KeepAspectRatio SmoothTransformation;
                  tr4 = tr3 @ [Call_setDevicePixelRatio final_scaled dpi_scale]
              in if praises At_setDevicePixelRatio then process_except tr4
              else tr4 @ [Call_finished_emit (setDevicePixelRatio final_scaled dpi_scale)])"

text \<open>The images a trace emits through the \<^verbatim>\<open>finished\<close> signal.\<close>

fun emitted :: "worker_call list \<Rightarrow> qimage list" where
  "emitted [] = []"
| "emitted (Call_finished_emit img # tr) = img # emitted tr"
| "emitted (_ # tr) = emitted tr"

text \<open>No call raises.\<close>

definition no_raise :: "'a \<Rightarrow> bool" where
  "no_raise site = False"

subsection \<open>The host application and the toolkit objects\<close>

record document =
  doc_width :: int
  doc_height :: int
  doc_content :: nat

text \<open>\<^verbatim>\<open>doc.projection(0, 0, doc.width(), doc.height())\<close>: the rendered document.\<close>

definition doc_projection :: "document \<Rightarrow> qimage" where
  "doc_projection doc =
     \<lparr> img_width = doc_width doc, img_height = doc_height doc, img_dpr = 1,
       img_content = doc_content doc \<rparr>"

text \<open>
  The toolkit calls of \<^verbatim>\<open>Canvasviewer\<close> that stand inside a \<^verbatim>\<open>try\<close> block, named
  after the block and the call. Calls outside every \<^verbatim>\<open>try\<close> block are taken not to
  raise; the exceptions of Python's own arithmetic are computed.
\<close>

datatype site =
    Stop_isRunning | Stop_quit | Stop_wait
  | Create_Worker | Create_QThread | Create_moveToThread | Create_connect_started
  | Create_connect_finished | Create_setObjectName | Create_start
  | Update_isNull | Update_fromImage | Update_setPixmap
  | Clean_started_disconnect | Clean_finished_disconnect
  | Clean_quit | Clean_wait | Clean_deleteLater_worker | Clean_deleteLater_thread

text \<open>
  What the host and the toolkit answer while one method of the widget runs: the active
  document, the size of the thumbnail label, the widget's device pixel ratio, the
  pressed mouse buttons, whether a thread that is waited for finishes within the
  timeout, and which calls raise.
\<close>

record host =
  activeDocument :: "document option"
  label_width :: int
  label_height :: int
  devicePixelRatioF :: real
  mouseButtons :: int
  wait_finished :: bool
  raises :: "site \<Rightarrow> bool"

definition LeftButton :: int where "LeftButton = 1"
definition RightButton :: int where "RightButton = 2"
definition MiddleButton :: int where "MiddleButton = 4"

text \<open>
  The buttons of a pointing device, and what \<^verbatim>\<open>QApplication.mouseButtons()\<close> returns
  while a given list of them is held: the bitwise or of their flags. The toolkit numbers
  the flags \<open>0x1\<close> (left), \<open>0x2\<close> (right), \<open>0x4\<close> (middle), and \<open>0x8\<close>, \<open>0x10\<close>, ...
  for the further buttons (back, forward, task, extra).
\<close>

datatype mouse_button = Button_left | Button_right | Button_middle | Button_further nat

fun button_bit :: "mouse_button \<Rightarrow> nat" where
  "button_bit Button_left = 0"
| "button_bit Button_right = 1"
| "button_bit Button_middle = 2"
| "button_bit (Button_further k) = k + 3"

fun buttons_flags :: "mouse_button list \<Rightarrow> int" where
  "buttons_flags [] = 0"
| "buttons_flags (b # bs) = push_bit (button_bit b) 1 OR buttons_flags bs"

record qthread =
  isRunning :: bool
  quit_requested :: bool
  started_receivers :: nat

definition QThread :: qthread where
  "QThread = \<lparr> isRunning = False, quit_requested = False, started_receivers = 0 \<rparr>"

datatype label_text = Text_label | Text_no_document

datatype label_content = Label_text label_text | Label_pixmap qimage

datatype message =
    Warn_thread_not_exited | Err_stop_thread | Err_create_thread | Err_update_thumbnail
  | Err_disconnect_started | Err_disconnect_finished | Warn_thread_not_finished
  | Err_cleanup

text \<open>The calls with an effect outside the widget, in the order they are made.\<close>

datatype call =
    Print message
  | Label_setText label_text
  | Label_setPixmap qimage
  | Thread_quit nat
  | Thread_wait nat int
  | Thread_start nat
  | Started_disconnect nat
  | Finished_disconnect nat
  | Worker_deleteLater nat
  | Thread_deleteLater nat

subsection \<open>Canvasviewer\<close>

text \<open>
  The class attributes \<^verbatim>\<open>_is_thread_running\<close>, \<^verbatim>\<open>_current_thread\<close> and
  \<^verbatim>\<open>_current_worker\<close>, the instance attributes \<^verbatim>\<open>_current_thumbnail\<close>, \<^verbatim>\<open>state\<close>
  and \<^verbatim>\<open>idle_state\<close>, and the toolkit objects the widget owns: what the label
  shows, whether the two idle timers run, and the store of the thread and worker
  objects created so far (a reference is an index into the store). \<^verbatim>\<open>aborted\<close> tells
  that the toolkit has ended the process.
\<close>

record canvasviewer =
  is_thread_running :: bool
  current_thread :: "nat option"
  current_worker :: "nat option"
  current_thumbnail :: "qimage option"
  state :: int
  idle_state :: bool
  label :: label_content
  idle_timer_active :: bool
  idle_signal_timer_active :: bool
  threads :: "nat \<Rightarrow> qthread"
  next_thread :: nat
  workers :: "nat \<Rightarrow> worker"
  next_worker :: nat
  calls :: "call list"
  aborted :: bool

definition do_call :: "call \<Rightarrow> canvasviewer \<Rightarrow> canvasviewer" where
  "do_call c s = s\<lparr> calls := calls s @ [c] \<rparr>"

text \<open>
  \<^verbatim>\<open>QThread.quit()\<close> asks the thread's event loop to end. \<^verbatim>\<open>QThread.wait(ms)\<close>
  returns true when the thread is not running or finishes within the timeout.
\<close>

definition thread_quit :: "nat \<Rightarrow> canvasviewer \<Rightarrow> canvasviewer" where
  "thread_quit t s =
     do_call (Thread_quit t)
       (s\<lparr> threads := (threads s)(t := (threads s t)\<lparr> quit_requested := True \<rparr>) \<rparr>)"

definition thread_wait :: "host \<Rightarrow> nat \<Rightarrow> int \<Rightarrow> canvasviewer \<Rightarrow> bool \<times> canvasviewer" where
  "thread_wait h t ms s =
     (let finished = (\<not> isRunning (threads s t) \<or> wait_finished h)
      in (finished,
          do_call (Thread_wait t ms)
            (s\<lparr> threads := (threads s)(t := (threads s t)\<lparr> isRunning :=
                 isRunning (threads s t) \<and> \<not> finished \<rparr>) \<rparr>)))"

text \<open>
  \<^verbatim>\<open>_current_thread\<close> holds the only reference to its thread object. Binding the
  attribute to something else destroys the object it held, and the toolkit ends the
  process when a \<^verbatim>\<open>QThread\<close> is destroyed while it is running.
\<close>

definition destroys_running :: "nat option \<Rightarrow> canvasviewer \<Rightarrow> bool" where
  "destroys_running r s = (case r of None \<Rightarrow> False | Some t \<Rightarrow> isRunning (threads s t))"

definition try_bind :: "exn + 'a \<Rightarrow> ('a \<Rightarrow> exn + 'b) \<Rightarrow> exn + 'b" where
  "try_bind x f = (case x of Inl e \<Rightarrow> Inl e | Inr v \<Rightarrow> f v)"

definition get_thumbnail_size :: "config \<Rightarrow> host \<Rightarrow> exn + (int \<times> int)" where
  "get_thumbnail_size cfg h =
     (let margin' = min (margin cfg) 10;
          available_width = max 1 (label_width h - margin' * 2);
          available_height = max 1 (label_height h - margin' * 2);
          dpi_scale = (if ENABLE_DPI_CORRECTION cfg then devicePixelRatioF h else 1)
      in case activeDocument h of
           None \<Rightarrow>
             try_bind (py_truediv (of_int available_width) dpi_scale) (\<lambda>q1.
             try_bind (py_min_scalar q1) (\<lambda>m1.
             try_bind (py_truediv (of_int available_height) dpi_scale) (\<lambda>q2.
             try_bind (py_min_scalar q2) (\<lambda>m2.
             Inr (py_int m1, py_int m2)))))
         | Some doc \<Rightarrow>
             try_bind (py_truediv (of_int (doc_width doc)) (of_int (doc_height doc)))
               (\<lambda>canvas_ratio.
             try_bind (py_truediv (of_int (label_width h)) (of_int (label_height h)))
               (\<lambda>label_ratio.
             try_bind
               (if canvas_ratio > label_ratio then
                  let width' = of_int (label_width h) * dpi_scale
                  in try_bind (py_truediv width' canvas_ratio) (\<lambda>q.
                     Inr (width', of_int (py_int q)))
                else
                  let height' = of_int (label_height h) * dpi_scale
                  in Inr (of_int (py_int (height' * canvas_ratio)), height'))
               (\<lambda>(width', height').
             try_bind (py_truediv width' dpi_scale) (\<lambda>qw.
             try_bind (py_truediv height' dpi_scale) (\<lambda>qh.
             Inr (py_int qw, py_int qh)))))))"

text \<open>
  The block of \<^verbatim>\<open>refresh_thumbnail\<close> under \<^verbatim>\<open>if Canvasviewer._is_thread_running\<close>.
  The boolean is false when the method returns from inside the block.
\<close>

definition stop_except :: "canvasviewer \<Rightarrow> bool \<times> canvasviewer" where
  "stop_except s = (False, (do_call (Print Err_stop_thread) s)\<lparr> is_thread_running := False \<rparr>)"

definition stop_previous :: "host \<Rightarrow> canvasviewer \<Rightarrow> bool \<times> canvasviewer" where
  "stop_previous h s =
     (if \<not> is_thread_running s then (True, s)
      else case current_thread s of
          None \<Rightarrow> (True, s)
        | Some t \<Rightarrow>
            if raises h Stop_isRunning then stop_except s
            else if \<not> isRunning (threads s t) then (True, s)
            else if raises h Stop_quit then stop_except s
            else
              let s1 = thread_quit t s
              in if raises h Stop_wait then stop_except s1
                 else
                   let (finished, s2) = thread_wait h t 100 s1
                   in if \<not> finished then
                        (False, (do_call (Print Warn_thread_not_exited) s2)
                                  \<lparr> is_thread_running := False \<rparr>)
                      else (True, s2))"

text \<open>
  The second \<^verbatim>\<open>try\<close> block of \<^verbatim>\<open>refresh_thumbnail\<close>: worker and thread are created.
  The assignment of the new thread to \<^verbatim>\<open>_current_thread\<close> destroys the thread the
  attribute held before.
\<close>

definition create_except :: "canvasviewer \<Rightarrow> canvasviewer" where
  "create_except s = (do_call (Print Err_create_thread) s)\<lparr> is_thread_running := False \<rparr>"

definition start_worker :: "host \<Rightarrow> qimage \<Rightarrow> int \<Rightarrow> int \<Rightarrow> canvasviewer \<Rightarrow> canvasviewer" where
  "start_worker h proj thumb_width thumb_height s =
     (if raises h Create_Worker then create_except s
      else
        let wid = next_worker s;
            s1 = s\<lparr> workers := (workers s)(wid :=
                      \<lparr> projection = proj, width = thumb_width, height = thumb_height,
                        finished_receivers = 0 \<rparr>),
                    next_worker := Suc wid, current_worker := Some wid \<rparr>
        in if raises h Create_QThread then create_except s1
        else
          let tid = next_thread s1;
              s2 = s1\<lparr> threads := (threads s1)(tid := QThread), next_thread := Suc tid,
                       current_thread := Some tid \<rparr>
          in if destroys_running (current_thread s1) s1 then s2\<lparr> aborted := True \<rparr>
          else if raises h Create_moveToThread then create_except s2
          else if raises h Create_connect_started then create_except s2
          else
            let s3 = s2\<lparr> threads := (threads s2)(tid := (threads s2 tid)
                         \<lparr> started_receivers := Suc (started_receivers (threads s2 tid)) \<rparr>) \<rparr>
            in if raises h Create_connect_finished then create_except s3
            else
              let s4 = s3\<lparr> workers := (workers s3)(wid := (workers s3 wid)
                           \<lparr> finished_receivers := Suc (finished_receivers (workers s3 wid)) \<rparr>) \<rparr>;
                  s5 = s4\<lparr> is_thread_running := True \<rparr>
              in if raises h Create_setObjectName then create_except s5
              else if raises h Create_start then create_except s5
              else do_call (Thread_start tid)
                     (s5\<lparr> threads := (threads s5)(tid := (threads s5 tid)
                           \<lparr> isRunning := True \<rparr>) \<rparr>))"

text \<open>
  A method returns the exception that leaves it, if one does, and the state with every
  assignment made before.
\<close>

definition refresh_thumbnail :: "config \<Rightarrow> host \<Rightarrow> canvasviewer \<Rightarrow> exn option \<times> canvasviewer" where
  "refresh_thumbnail cfg h s =
     (case activeDocument h of
        None \<Rightarrow>
          (None, (do_call (Label_setText Text_no_document) s)
                   \<lparr> label := Label_text Text_no_document \<rparr>)
      | Some doc \<Rightarrow>
          let (continue, s1) = stop_previous h s
          in if \<not> continue then (None, s1)
             else
               let dpi_scale = (if ENABLE_DPI_CORRECTION cfg then devicePixelRatioF h else 1);
                   projection' = setDevicePixelRatio (doc_projection doc) dpi_scale
               in (case get_thumbnail_size cfg h of
                     Inl e \<Rightarrow> (Some e, s1)
                   | Inr (thumb_width, thumb_height) \<Rightarrow>
                       (None, start_worker h projection' thumb_width thumb_height s1)))"

definition update_except :: "canvasviewer \<Rightarrow> canvasviewer" where
  "update_except s = do_call (Print Err_update_thumbnail) s"

definition update_thumbnail :: "host \<Rightarrow> qimage \<Rightarrow> canvasviewer \<Rightarrow> canvasviewer" where
  "update_thumbnail h img s =
     (if raises h Update_isNull then update_except s
      else if \<not> isNull img then
        if raises h Update_fromImage then update_except s
        else if raises h Update_setPixmap then update_except s
        else (do_call (Label_setPixmap img) s)
               \<lparr> label := Label_pixmap img, current_thumbnail := Some img \<rparr>
      else s)"

definition disconnect_started :: "host \<Rightarrow> nat \<Rightarrow> canvasviewer \<Rightarrow> canvasviewer" where
  "disconnect_started h t s =
     (case signal_receivers (started_receivers (threads s t)) of
        Inl e \<Rightarrow> do_call (Print Err_disconnect_started) s
      | Inr n \<Rightarrow>
          if n > 0 then
            if raises h Clean_started_disconnect then do_call (Print Err_disconnect_started) s
            else do_call (Started_disconnect t)
                   (s\<lparr> threads := (threads s)(t := (threads s t)\<lparr> started_receivers := 0 \<rparr>) \<rparr>)
          else s)"

definition disconnect_finished :: "host \<Rightarrow> nat \<Rightarrow> canvasviewer \<Rightarrow> canvasviewer" where
  "disconnect_finished h w s =
     (case signal_receivers (finished_receivers (workers s w)) of
        Inl e \<Rightarrow> do_call (Print Err_disconnect_finished) s
      | Inr n \<Rightarrow>
          if n > 0 then
            if raises h Clean_finished_disconnect then do_call (Print Err_disconnect_finished) s
            else do_call (Finished_disconnect w)
                   (s\<lparr> workers := (workers s)(w := (workers s w)\<lparr> finished_receivers := 0 \<rparr>) \<rparr>)
          else s)"

definition cleanup_except :: "canvasviewer \<Rightarrow> canvasviewer" where
  "cleanup_except s =
     (do_call (Label_setText Text_no_document) (do_call (Print Err_cleanup) s))
       \<lparr> label := Label_text Text_no_document \<rparr>"

text \<open>The \<^verbatim>\<open>try\<close> block of \<^verbatim>\<open>on_worker_finished\<close> with its \<^verbatim>\<open>except\<close> branch.\<close>

definition cleanup_try :: "host \<Rightarrow> canvasviewer \<Rightarrow> canvasviewer" where
  "cleanup_try h s =
     (case (current_thread s, current_worker s) of
        (Some t, Some w) \<Rightarrow>
          let s1 = disconnect_started h t s;
              s2 = disconnect_finished h w s1
          in if raises h Clean_quit then cleanup_except s2
          else
            let s3 = thread_quit t s2
            in if raises h Clean_wait then cleanup_except s3
            else
              let (finished, s4) = thread_wait h t 200 s3;
                  s5 = (if \<not> finished then do_call (Print Warn_thread_not_finished) s4 else s4)
              in if raises h Clean_deleteLater_worker then cleanup_except s5
              else
                let s6 = do_call (Worker_deleteLater w) s5
                in if raises h Clean_deleteLater_thread then cleanup_except s6
                else do_call (Thread_deleteLater t) s6
      | _ \<Rightarrow> s)"

text \<open>
  \<^verbatim>\<open>on_worker_finished\<close>. In the \<^verbatim>\<open>finally\<close> block the assignment of \<^verbatim>\<open>None\<close> to
  \<^verbatim>\<open>_current_thread\<close> destroys the thread the attribute held.
\<close>

definition on_worker_finished :: "host \<Rightarrow> qimage \<Rightarrow> canvasviewer \<Rightarrow> canvasviewer" where
  "on_worker_finished h img s =
     (let s1 = update_thumbnail h img s;
          s2 = cleanup_try h s1;
          s3 = s2\<lparr> current_worker := None \<rparr>
      in if destroys_running (current_thread s3) s3
         then s3\<lparr> current_thread := None, aborted := True \<rparr>
         else s3\<lparr> current_thread := None, is_thread_running := False \<rparr>)"

definition update_thumbnail_display :: "config \<Rightarrow> host \<Rightarrow> canvasviewer \<Rightarrow> exn option \<times> canvasviewer" where
  "update_thumbnail_display cfg h s =
     (case current_thumbnail s of
        None \<Rightarrow> (None, s)
      | Some thumbnail \<Rightarrow>
          (case get_thumbnail_size cfg h of
             Inl e \<Rightarrow> (Some e, s)
           | Inr (thumb_width, thumb_height) \<Rightarrow>
               let scaled_image = scaled thumbnail thumb_width thumb_height
                     KeepAspectRatio SmoothTransformation
               in (None, (do_call (Label_setPixmap scaled_image) s)
                           \<lparr> label := Label_pixmap scaled_image \<rparr>)))"

definition is_pressed :: "int \<Rightarrow> int \<Rightarrow> bool" where
  "is_pressed mouse_buttons button = (mouse_buttons AND button \<noteq> 0)"

definition check_state :: "config \<Rightarrow> host \<Rightarrow> canvasviewer \<Rightarrow> exn option \<times> canvasviewer" where
  "check_state cfg h s =
     (let mouse_buttons = mouseButtons h;
          is_left_pressed = is_pressed mouse_buttons LeftButton;
          is_right_pressed = is_pressed mouse_buttons RightButton;
          is_middle_pressed = is_pressed mouse_buttons MiddleButton
      in if state s = 0 then
           if \<not> is_left_pressed \<and> \<not> is_right_pressed \<and> \<not> is_middle_pressed then
             let s1 = s\<lparr> state := 1 \<rparr>;
                 (e, s2) = (if \<not> is_thread_running s1 \<and> \<not> idle_state s1
                            then refresh_thumbnail cfg h s1 else (None, s1))
             in if aborted s2 then (None, s2)
                else (case e of
                   Some x \<Rightarrow> (Some x, s2)
                 | None \<Rightarrow> (None, s2\<lparr> idle_timer_active := True \<rparr>))
           else (None, s)
         else if state s = 1 then
           if is_left_pressed \<or> is_right_pressed \<or> is_middle_pressed then
             let s1 = s\<lparr> state := 0 \<rparr>;
                 s2 = (if idle_state s1 then s1\<lparr> idle_state := False \<rparr> else s1)
             in (None, s2\<lparr> idle_timer_active := False \<rparr>)
           else (None, s)
         else (None, s))"

definition enter_idle_state :: "canvasviewer \<Rightarrow> canvasviewer" where
  "enter_idle_state s =
     (if \<not> idle_state s then s\<lparr> idle_state := True, idle_signal_timer_active := True \<rparr>
      else s)"

definition send_idle_signal :: "config \<Rightarrow> host \<Rightarrow> canvasviewer \<Rightarrow> exn option \<times> canvasviewer" where
  "send_idle_signal cfg h s =
     (if idle_state s then
        if \<not> is_thread_running s then refresh_thumbnail cfg h s else (None, s)
      else (None, s\<lparr> idle_signal_timer_active := False \<rparr>))"

definition canvasChanged :: "config \<Rightarrow> host \<Rightarrow> canvasviewer \<Rightarrow> exn option \<times> canvasviewer" where
  "canvasChanged cfg h s = refresh_thumbnail cfg h s"

text \<open>
  \<^verbatim>\<open>__init__\<close>: the attributes are set, the state timer is started, and \<^verbatim>\<open>initUI\<close>
  ends with a first \<^verbatim>\<open>refresh_thumbnail\<close>.
\<close>

definition new_canvasviewer :: canvasviewer where
  "new_canvasviewer =
     \<lparr> is_thread_running = False, current_thread = None, current_worker = None,
       current_thumbnail = None, state = 0, idle_state = False,
       label = Label_text Text_label,
       idle_timer_active = False, idle_signal_timer_active = False,
       threads = (\<lambda>t. QThread), next_thread = 0,
       workers = (\<lambda>w. \<lparr> projection = QImage_null, width = 0, height = 0,
                          finished_receivers = 0 \<rparr>),
       next_worker = 0, calls = [], aborted = False \<rparr>"

definition init :: "config \<Rightarrow> host \<Rightarrow> canvasviewer" where
  "init cfg h = snd (refresh_thumbnail cfg h new_canvasviewer)"

subsection \<open>The event loop\<close>

text \<open>
  What the host's event loop delivers to the widget: the document-changed notification,
  the three timers, and the \<^verbatim>\<open>finished\<close> signal of a worker whose \<^verbatim>\<open>process\<close> has
  run in its thread. A thread that was asked to quit may end at any time. The handlers
  run one after the other on the event-loop thread. The two idle timers fire only while
  they are active, and a \<^verbatim>\<open>finished\<close> signal reaches \<^verbatim>\<open>on_worker_finished\<close> only while
  it is connected; a signal emitted before its worker was replaced is still delivered.
  An exception that leaves a handler ends the handler; the widget keeps the assignments
  made before it. Once the process is aborted nothing is delivered any more.
\<close>

datatype event =
    CanvasChanged host
  | CheckState host
  | EnterIdleState
  | SendIdleSignal host
  | WorkerFinished nat "process_site \<Rightarrow> bool" host
  | ThreadExits nat

definition step :: "config \<Rightarrow> event \<Rightarrow> canvasviewer \<Rightarrow> canvasviewer" where
  "step cfg ev s =
     (if aborted s then s
      else case ev of
        CanvasChanged h \<Rightarrow> snd (canvasChanged cfg h s)
      | CheckState h \<Rightarrow> snd (check_state cfg h s)
      | EnterIdleState \<Rightarrow> (if idle_timer_active s then enter_idle_state s else s)
      | SendIdleSignal h \<Rightarrow>
          (if idle_signal_timer_active s then snd (send_idle_signal cfg h s) else s)
      | WorkerFinished w praises h \<Rightarrow>
          (if w < next_worker s \<and> finished_receivers (workers s w) > 0 then
             (case emitted (process cfg praises (workers s w)) of
                [] \<Rightarrow> s
              | img # _ \<Rightarrow> on_worker_finished h img s)
           else s)
      | ThreadExits t \<Rightarrow>
          (if quit_requested (threads s t) then
             s\<lparr> threads := (threads s)(t := (threads s t)\<lparr> isRunning := False \<rparr>) \<rparr>
           else s))"

fun run :: "config \<Rightarrow> event list \<Rightarrow> canvasviewer \<Rightarrow> canvasviewer" where
  "run cfg [] s = s"
| "run cfg (ev # evs) s = run cfg evs (step cfg ev s)"


fun is_CheckState :: "event \<Rightarrow> bool" where
  "is_CheckState (CheckState h) = True"
| "is_CheckState _ = False"

subsection \<open>Predicates of the statements\<close>

text \<open>At least one of the tracked buttons (left, right, middle) is among those held.\<close>

definition tracked_pressed :: "mouse_button list \<Rightarrow> bool" where
  "tracked_pressed held =
     (Button_left \<in> set held \<or> Button_right \<in> set held \<or> Button_middle \<in> set held)"

text \<open>
  \<^verbatim>\<open>state\<close> is 0 or 1, and the idle timer runs or the idle flag is set only while it
  is 1.
\<close>

definition idle_invariant :: "canvasviewer \<Rightarrow> bool" where
  "idle_invariant s =
     ((state s = 0 \<or> state s = 1) \<and> (idle_timer_active s \<or> idle_state s \<longrightarrow> state s = 1))"

subsection \<open>Concrete inputs\<close>

text \<open>
  A 1920 x 1080 capture for a 320 x 180 thumbnail on a display of pixel ratio 2, and a
  1000 x 333 capture for a 100 x 100 thumbnail at pixel ratio 1.5.
\<close>

definition example_worker :: worker where
  "example_worker =
     \<lparr> projection = \<lparr> img_width = 1920, img_height = 1080, img_dpr = 2, img_content = 7 \<rparr>,
       width = 320, height = 180, finished_receivers = 1 \<rparr>"

definition example_worker_odd :: worker where
  "example_worker_odd =
     \<lparr> projection = \<lparr> img_width = 1000, img_height = 333, img_dpr = 3 / 2, img_content = 8 \<rparr>,
       width = 100, height = 100, finished_receivers = 1 \<rparr>"

definition example_document :: "nat \<Rightarrow> document" where
  "example_document c = \<lparr> doc_width = 1920, doc_height = 1080, doc_content = c \<rparr>"

text \<open>
  A host with a 320 x 180 label at pixel ratio 1, no button pressed, no call raising:
  with the given active document and the given answer of \<^verbatim>\<open>wait\<close>.
\<close>

definition example_host :: "document option \<Rightarrow> bool \<Rightarrow> host" where
  "example_host doc stops =
     \<lparr> activeDocument = doc, label_width = 320, label_height = 180, devicePixelRatioF = 1,
       mouseButtons = 0, wait_finished = stops, raises = no_raise \<rparr>"

section \<open>The scaler\<close>

subsection \<open>Integer division and fitted sizes\<close>

lemma div_div_cancel:
  fixes f x h :: int
  assumes "0 < f"
  shows "(f * x div h) div f = x div h"
proof -
  have "(f * x div h) div f = f * x div (h * f)"
    using assms by (simp add: zdiv_zmult2_eq)
  also have "\<dots> = x div h"
    using assms by (simp add: mult.commute)
  finally show ?thesis .
qed

lemma max_div_clamp:
  fixes f r :: int
  assumes "1 \<le> f" "0 \<le> r"
  shows "max (max r 1 div f) 1 = max (r div f) 1"
proof (cases "1 \<le> r")
  case True then show ?thesis by (simp add: max_def)
next
  case False
  with assms have r0: "r = 0" by simp
  have "(1::int) div f \<le> 1" using assms
    by (metis div_by_1 zdiv_mono2 zero_less_one zero_le_one)
  then show ?thesis using r0 by (simp add: max_def)
qed

lemma floor_bounds:
  fixes x h :: int
  assumes "0 < h"
  shows "(x div h) * h \<le> x" "x < (x div h + 1) * h"
proof -
  have "x = (x div h) * h + x mod h" by simp
  moreover have "0 \<le> x mod h" "x mod h < h" using assms by simp_all
  ultimately show "(x div h) * h \<le> x" by linarith
  have "(x div h + 1) * h = (x div h) * h + h" by (simp add: algebra_simps)
  then show "x < (x div h + 1) * h"
    using \<open>x = (x div h) * h + x mod h\<close> \<open>x mod h < h\<close> by linarith
qed

lemma clamp_floor_bound:
  fixes x h :: int
  assumes "0 < h" "0 \<le> x"
  shows "\<bar>max (x div h) 1 * h - x\<bar> \<le> h"
proof -
  note fb = floor_bounds[OF assms(1), of x]
  have q0: "0 \<le> x div h" using assms by (simp add: pos_imp_zdiv_nonneg_iff)
  show ?thesis
  proof (cases "1 \<le> x div h")
    case True
    then have "max (x div h) 1 * h = (x div h) * h" by simp
    moreover have "(x div h + 1) * h = (x div h) * h + h" by (simp add: algebra_simps)
    ultimately show ?thesis using fb by linarith
  next
    case False
    with q0 have "x div h = 0" by simp
    then have "max (x div h) 1 * h = h" "x < h" using fb by simp_all
    then show ?thesis using assms by linarith
  qed
qed

lemma hybrid_fit:
  fixes w h W H f r2 a2 b2 r3 a3 b3 :: int
  assumes pos: "1 \<le> w" "1 \<le> h" "1 \<le> W" "1 \<le> H" "1 \<le> f"
    and r2_def: "r2 = H * f * (2 * w) div (2 * h)"
    and a2_def: "a2 = (if r2 \<le> W * f then max r2 1 else W * f)"
    and b2_def: "b2 = (if r2 \<le> W * f then H * f else max (W * f * (2 * h) div (2 * w)) 1)"
    and r3_def: "r3 = H * a2 div b2"
    and a3_def: "a3 = (if r3 \<le> W then max r3 1 else W)"
    and b3_def: "b3 = (if r3 \<le> W then H else max (W * b2 div a2) 1)"
  shows "\<bar>a3 * h - b3 * w\<bar> \<le> max w h \<and> (a3 = W \<or> b3 = H) \<and> 1 \<le> a3 \<and> a3 \<le> W \<and> 1 \<le> b3 \<and> b3 \<le> H"
proof -
  have r2_eq: "r2 = f * (H * w) div h"
    unfolding r2_def using pos by (simp add: mult.assoc mult.left_commute mult.commute)
  have q2_eq: "W * f * (2 * h) div (2 * w) = f * (W * h) div w"
    using pos by (simp add: mult.assoc mult.left_commute mult.commute)
  have fW: "W * f = f * W" and fH: "H * f = f * H" by simp_all
  have r2_nonneg: "0 \<le> r2" unfolding r2_eq using pos by (simp add: pos_imp_zdiv_nonneg_iff)
  show ?thesis
  proof (cases "r2 \<le> f * W")
    case True
    then have a2: "a2 = max r2 1" and b2: "b2 = f * H" by (simp_all add: a2_def b2_def fW fH)
    have "r3 = max r2 1 div f"
      unfolding r3_def a2 b2 using pos by (simp add: mult.commute)
    then have m3: "max r3 1 = max (H * w div h) 1"
      using max_div_clamp[OF pos(5) r2_nonneg] div_div_cancel[of f "H * w" h] pos r2_eq by simp
    have P_le: "H * w div h \<le> W"
    proof -
      have "r2 div f \<le> f * W div f" using True pos by (intro zdiv_mono1) simp_all
      then show ?thesis using div_div_cancel[of f "H * w" h] pos r2_eq by simp
    qed
    have "r3 \<le> max r3 1" by simp
    then have r3_le: "r3 \<le> W" using m3 P_le pos by simp
    have a3: "a3 = max (H * w div h) 1" and b3: "b3 = H" using r3_le m3 by (simp_all add: a3_def b3_def)
    have "\<bar>max (H * w div h) 1 * h - H * w\<bar> \<le> h"
      using clamp_floor_bound[of h "H * w"] pos by simp
    then show ?thesis using a3 b3 P_le pos by simp
  next
    case False
    then have a2: "a2 = f * W" and b2: "b2 = max (f * (W * h) div w) 1"
      by (simp_all add: a2_def b2_def q2_eq fW fH)
    define q2 where "q2 = f * (W * h) div w"
    have q2_nonneg: "0 \<le> q2" unfolding q2_def using pos by (simp add: pos_imp_zdiv_nonneg_iff)
    have b2_pos: "1 \<le> b2" unfolding b2 by simp
    have "r2 * h \<le> f * (H * w)"
      unfolding r2_eq using floor_bounds(1)[of h "f * (H * w)"] pos by simp
    moreover have "(f * W + 1) * h \<le> r2 * h"
      using False pos by (intro mult_right_mono) simp_all
    ultimately have "f * (W * h) + h \<le> f * (H * w)" by (simp add: algebra_simps)
    then have fK: "f * (W * h) < f * (H * w)" using pos by linarith
    then have K: "W * h < H * w" using pos by simp
    have "q2 * w \<le> f * (W * h)"
      unfolding q2_def using floor_bounds(1)[of w "f * (W * h)"] pos by simp
    then have "q2 * w < (f * H) * w" using fK by (simp add: mult.assoc)
    then have q2_lt: "q2 < f * H" using pos by simp
    have fH1: "1 \<le> f * H" using pos by (metis mult_mono zero_le_one order_trans mult_1)
    have b2_le: "b2 \<le> f * H" unfolding b2 q2_def[symmetric] using q2_lt fH1 by simp
    have r3: "r3 = H * (f * W) div b2" unfolding r3_def a2 ..
    have "W * b2 \<le> W * (f * H)" using b2_le pos by (intro mult_left_mono) simp_all
    then have "W * b2 div b2 \<le> H * (f * W) div b2"
      using b2_pos by (intro zdiv_mono1) (simp_all add: mult.commute mult.left_commute)
    then have W_le: "W \<le> r3" unfolding r3 using b2_pos by simp
    show ?thesis
    proof (cases "r3 \<le> W")
      case True
      with W_le have r3W: "r3 = W" by simp
      then have a3: "a3 = W" and b3: "b3 = H" using pos by (simp_all add: a3_def b3_def)
      have up: "H * (f * W) < (W + 1) * b2"
        using floor_bounds(2)[of b2 "H * (f * W)"] b2_pos r3 r3W by simp
      have "H * w - W * h \<le> max w h"
      proof (cases "1 \<le> q2")
        case True
        then have "b2 = q2" unfolding b2 q2_def by simp
        with up have "H * (f * W) < (W + 1) * q2" by simp
        then have "H * (f * W) * w < (W + 1) * q2 * w" using pos by simp
        also have "\<dots> = (W + 1) * (q2 * w)" by simp
        also have "\<dots> \<le> (W + 1) * (f * (W * h))"
          using \<open>q2 * w \<le> f * (W * h)\<close> pos by (intro mult_left_mono) simp_all
        finally have "(f * W) * (H * w) < (f * W) * ((W + 1) * h)"
          by (simp add: algebra_simps)
        moreover have "0 < f * W" using pos by simp
        ultimately have "H * w < (W + 1) * h" using mult_less_cancel_left_pos by blast
        then have "H * w - W * h < h" by (simp add: algebra_simps)
        then show ?thesis by simp
      next
        case False
        then have "b2 = 1" unfolding b2 q2_def by simp
        with up have "H * (f * W) < W + 1" by simp
        moreover have "H * W \<le> H * (f * W)" using pos by (intro mult_left_mono) simp_all
        ultimately have "H * W \<le> 1 * W" by simp
        then have "H \<le> 1" using pos by (auto simp: mult_le_cancel_right)
        with pos have "H = 1" by simp
        moreover have "0 \<le> W * h" using pos by simp
        ultimately show ?thesis by simp
      qed
      then show ?thesis using a3 b3 K pos by simp
    next
      case False
      then have a3: "a3 = W" and b3': "b3 = max (W * b2 div (f * W)) 1"
        by (simp_all add: a3_def b3_def a2)
      have "W * b2 div (f * W) = b2 div f" using pos by (simp add: mult.commute)
      then have b3: "b3 = max (W * h div w) 1"
        unfolding b3' b2 using max_div_clamp[OF pos(5) q2_nonneg] div_div_cancel[of f "W * h" w] pos
        by (simp add: q2_def)
      have "W * h div w * w \<le> W * h" using floor_bounds(1)[of w "W * h"] pos by simp
      then have "W * h div w * w < H * w" using K by simp
      then have Q_le: "W * h div w \<le> H" using pos by simp
      have "\<bar>max (W * h div w) 1 * w - W * h\<bar> \<le> w"
        using clamp_floor_bound[of w "W * h"] pos by simp
      then show ?thesis using a3 b3 Q_le pos by (simp add: abs_minus_commute)
    qed
  qed
qed


lemma scaled_keep_width:
  assumes "\<not> isNull img" "1 \<le> W" "1 \<le> H"
  shows "img_width (scaled img W H KeepAspectRatio tm) =
           (if H * img_width img div img_height img \<le> W
            then max (H * img_width img div img_height img) 1 else W)"
    and "img_height (scaled img W H KeepAspectRatio tm) =
           (if H * img_width img div img_height img \<le> W
            then H else max (W * img_height img div img_width img) 1)"
  using assms by (auto simp: scaled_def qsize_scaled_def isNull_def Let_def)

lemma scaled_not_null:
  assumes "\<not> isNull img" "1 \<le> W" "1 \<le> H"
  shows "\<not> isNull (scaled img W H am tm)"
  using assms by (auto simp: scaled_def isNull_def Let_def)

lemma presmooth_size:
  assumes "\<not> isNull img"
  shows "img_width (scaled img (img_width img * 2) (img_height img * 2) KeepAspectRatio tm) = 2 * img_width img"
    and "img_height (scaled img (img_width img * 2) (img_height img * 2) KeepAspectRatio tm) = 2 * img_height img"
  using assms by (auto simp: scaled_def qsize_scaled_def isNull_def Let_def)



lemma emitted_append: "emitted (xs @ ys) = emitted xs @ emitted ys"
  by (induction xs rule: emitted.induct) simp_all

lemma process_no_fault:
  assumes "\<forall>x. \<not> praises x"
  shows "process cfg praises w =
     (let src = projection w;
          dpr = devicePixelRatio src;
          pw = py_int (of_int (width w) * dpr);
          ph = py_int (of_int (height w) * dpr);
          f = thumbnail_upscale_factor cfg;
          smoothed = scaled src (img_width src * 2) (img_height src * 2) KeepAspectRatio SmoothTransformation;
          fast_scaled = scaled smoothed (pw * f) (ph * f) KeepAspectRatio FastTransformation;
          final_scaled = scaled fast_scaled pw ph KeepAspectRatio SmoothTransformation
      in [Call_scaled src (img_width src * 2) (img_height src * 2) KeepAspectRatio SmoothTransformation,
          Call_scaled smoothed (pw * f) (ph * f) KeepAspectRatio FastTransformation,
          Call_scaled fast_scaled pw ph KeepAspectRatio SmoothTransformation,
          Call_setDevicePixelRatio final_scaled dpr,
          Call_finished_emit (setDevicePixelRatio final_scaled dpr)])"
  using assms by (simp add: process_def Let_def)

lemma process_fault:
  assumes "praises x"
  shows "emitted (process cfg praises w) = [QImage_null]"
proof -
  have e: "\<And>tr. emitted tr = [] \<Longrightarrow> emitted (process_except tr) = [QImage_null]"
    by (simp add: process_except_def emitted_append)
  from assms have "praises At_devicePixelRatio \<or> praises At_presmooth \<or> praises At_fast_scaled
      \<or> praises At_final_scaled \<or> praises At_setDevicePixelRatio"
    by (cases x) auto
  then show ?thesis
    by (auto simp: process_def Let_def e emitted_append)
qed

lemma process_ignores_use_hybrid_scaling:
  "process (cfg\<lparr> use_hybrid_scaling := b \<rparr>) praises w = process cfg praises w"
  by (simp add: process_def Let_def)

lemmas eval_scaler =
  process_def process_except_def scaled_def qsize_scaled_def isNull_def devicePixelRatio_def
  setDevicePixelRatio_def py_int_def QImage_null_def Let_def Config_def no_raise_def
  example_worker_def example_worker_odd_def

subsection \<open>The claims about the scaler\<close>

text \<open>
  Claim C4. When no call of \<^verbatim>\<open>Worker.process\<close> raises and the upscale factor is the
  configured 2, the worker makes exactly these calls, in this order: a smooth resample
  of the source, aspect ratio kept, to twice the source's own size; a fast resample of
  that to twice the physical target size, where the physical size is the logical size
  times the source's device pixel ratio, truncated; a smooth resample of that to the
  physical target size; setting the source's device pixel ratio on the result; emitting
  the result. The first resample of a non-null source has exactly twice its width and
  height, and a non-null emitted image carries the source's device pixel ratio.
\<close>

theorem process_hybrid_pipeline:
  assumes "\<forall>x. \<not> praises x" and "thumbnail_upscale_factor cfg = 2"
  shows "process cfg praises w =
     (let src = projection w;
          dpr = devicePixelRatio src;
          physical_width = py_int (of_int (width w) * dpr);
          physical_height = py_int (of_int (height w) * dpr);
          smoothed = scaled src (img_width src * 2) (img_height src * 2)
                       KeepAspectRatio SmoothTransformation;
          fast_scaled = scaled smoothed (physical_width * 2) (physical_height * 2)
                       KeepAspectRatio FastTransformation;
          final_scaled = scaled fast_scaled physical_width physical_height
                       KeepAspectRatio SmoothTransformation
      in [Call_scaled src (img_width src * 2) (img_height src * 2)
            KeepAspectRatio SmoothTransformation,
          Call_scaled smoothed (physical_width * 2) (physical_height * 2)
            KeepAspectRatio FastTransformation,
          Call_scaled fast_scaled physical_width physical_height
            KeepAspectRatio SmoothTransformation,
          Call_setDevicePixelRatio final_scaled dpr,
          Call_finished_emit (setDevicePixelRatio final_scaled dpr)])
     \<and> (\<not> isNull (projection w) \<longrightarrow>
          img_width (scaled (projection w) (img_width (projection w) * 2)
             (img_height (projection w) * 2) KeepAspectRatio SmoothTransformation)
            = 2 * img_width (projection w)
        \<and> img_height (scaled (projection w) (img_width (projection w) * 2)
             (img_height (projection w) * 2) KeepAspectRatio SmoothTransformation)
            = 2 * img_height (projection w))
     \<and> (\<forall>img \<in> set (emitted (process cfg praises w)).
          \<not> isNull img \<longrightarrow> img_dpr img = devicePixelRatio (projection w))"
proof -
  have tr: "process cfg praises w =
     (let src = projection w;
          dpr = devicePixelRatio src;
          physical_width = py_int (of_int (width w) * dpr);
          physical_height = py_int (of_int (height w) * dpr);
          smoothed = scaled src (img_width src * 2) (img_height src * 2)
                       KeepAspectRatio SmoothTransformation;
          fast_scaled = scaled smoothed (physical_width * 2) (physical_height * 2)
                       KeepAspectRatio FastTransformation;
          final_scaled = scaled fast_scaled physical_width physical_height
                       KeepAspectRatio SmoothTransformation
      in [Call_scaled src (img_width src * 2) (img_height src * 2)
            KeepAspectRatio SmoothTransformation,
          Call_scaled smoothed (physical_width * 2) (physical_height * 2)
            KeepAspectRatio FastTransformation,
          Call_scaled fast_scaled physical_width physical_height
            KeepAspectRatio SmoothTransformation,
          Call_setDevicePixelRatio final_scaled dpr,
          Call_finished_emit (setDevicePixelRatio final_scaled dpr)])"
    using assms process_no_fault[of praises cfg w] by (simp add: Let_def)
  have dpr: "\<forall>img \<in> set (emitted (process cfg praises w)).
          \<not> isNull img \<longrightarrow> img_dpr img = devicePixelRatio (projection w)"
    unfolding tr by (simp add: Let_def setDevicePixelRatio_def isNull_def)
  show ?thesis using tr dpr presmooth_size[of "projection w"] by blast
qed

theorem process_hybrid_pipeline_witness:
  "process Config no_raise example_worker =
     [Call_scaled \<lparr> img_width = 1920, img_height = 1080, img_dpr = 2, img_content = 7 \<rparr>
        3840 2160 KeepAspectRatio SmoothTransformation,
      Call_scaled \<lparr> img_width = 3840, img_height = 2160, img_dpr = 2, img_content = 7 \<rparr>
        1280 720 KeepAspectRatio FastTransformation,
      Call_scaled \<lparr> img_width = 1280, img_height = 720, img_dpr = 2, img_content = 7 \<rparr>
        640 360 KeepAspectRatio SmoothTransformation,
      Call_setDevicePixelRatio
        \<lparr> img_width = 640, img_height = 360, img_dpr = 2, img_content = 7 \<rparr> 2,
      Call_finished_emit \<lparr> img_width = 640, img_height = 360, img_dpr = 2, img_content = 7 \<rparr>]"
proof -
  have h1: "\<forall>x. \<not> no_raise x" by (simp add: no_raise_def)
  have h2: "thumbnail_upscale_factor Config = 2" by (simp add: Config_def)
  from process_hybrid_pipeline[OF h1 h2, of example_worker] show ?thesis
    by (simp add: scaled_def qsize_scaled_def isNull_def devicePixelRatio_def
          setDevicePixelRatio_def py_int_def Let_def example_worker_def)
qed

text \<open>
  Claim C5. When any call of \<^verbatim>\<open>Worker.process\<close> raises, the worker emits the null
  image and nothing else, and \<^verbatim>\<open>update_thumbnail\<close> given the null image leaves what the
  label shows and the cached thumbnail as they were.
\<close>

theorem process_scaling_failure:
  assumes "praises x"
  shows "emitted (process cfg praises w) = [QImage_null]
       \<and> label (update_thumbnail h QImage_null s) = label s
       \<and> current_thumbnail (update_thumbnail h QImage_null s) = current_thumbnail s"
  using assms process_fault[of praises x cfg w]
  by (simp add: update_thumbnail_def update_except_def do_call_def isNull_def QImage_null_def)

theorem process_scaling_failure_witness:
  "emitted (process Config (\<lambda>x. x = At_fast_scaled) example_worker) = [QImage_null]
   \<and> label (update_thumbnail (example_host None True) QImage_null new_canvasviewer)
       = Label_text Text_label
   \<and> current_thumbnail (update_thumbnail (example_host None True) QImage_null new_canvasviewer)
       = None"
proof -
  have h: "(\<lambda>x. x = At_fast_scaled) At_fast_scaled" by simp
  from process_scaling_failure[of "\<lambda>x. x = At_fast_scaled" At_fast_scaled Config example_worker
      "example_host None True" new_canvasviewer, OF h]
  show ?thesis by (simp add: new_canvasviewer_def)
qed

text \<open>
  Claim C8. The target dimensions of the scaler are the physical ones, derived from the
  logical size and the device pixel ratio. When they are positive, the source is not
  null and no call raises, the emitted image is not null, fits the physical target with
  one side equal to it, and its sides \<open>w'\<close>, \<open>h'\<close> against the source's \<open>w\<close>, \<open>h\<close>
  satisfy \<open>\<bar>w' * h - h' * w\<bar> \<le> max w h\<close>: changing one side of the output by at most
  one pixel gives the aspect ratio of the source exactly.
\<close>

theorem process_preserves_aspect_ratio:
  assumes nf: "\<forall>x. \<not> praises x"
    and f: "1 \<le> thumbnail_upscale_factor cfg"
    and src: "\<not> isNull (projection w)"
    and pw: "1 \<le> py_int (of_int (width w) * devicePixelRatio (projection w))"
    and ph: "1 \<le> py_int (of_int (height w) * devicePixelRatio (projection w))"
  shows "\<exists>img. emitted (process cfg praises w) = [img] \<and> \<not> isNull img
      \<and> \<bar>img_width img * img_height (projection w) - img_height img * img_width (projection w)\<bar>
            \<le> max (img_width (projection w)) (img_height (projection w))
      \<and> img_width img \<le> py_int (of_int (width w) * devicePixelRatio (projection w))
      \<and> img_height img \<le> py_int (of_int (height w) * devicePixelRatio (projection w))
      \<and> (img_width img = py_int (of_int (width w) * devicePixelRatio (projection w))
         \<or> img_height img = py_int (of_int (height w) * devicePixelRatio (projection w)))"
proof -
  define sw where "sw = img_width (projection w)"
  define sh where "sh = img_height (projection w)"
  define dpr where "dpr = devicePixelRatio (projection w)"
  define W where "W = py_int (of_int (width w) * dpr)"
  define H where "H = py_int (of_int (height w) * dpr)"
  define fac where "fac = thumbnail_upscale_factor cfg"
  define smoothed where "smoothed = scaled (projection w) (sw * 2) (sh * 2) KeepAspectRatio SmoothTransformation"
  define fast where "fast = scaled smoothed (W * fac) (H * fac) KeepAspectRatio FastTransformation"
  define final where "final = scaled fast W H KeepAspectRatio SmoothTransformation"
  have pos: "1 \<le> sw" "1 \<le> sh" "1 \<le> W" "1 \<le> H" "1 \<le> fac"
    using src pw ph f by (simp_all add: isNull_def sw_def sh_def W_def H_def dpr_def fac_def)
  have sm: "\<not> isNull smoothed" "img_width smoothed = 2 * sw" "img_height smoothed = 2 * sh"
    using presmooth_size[OF src] src scaled_not_null[OF src, of "sw * 2" "sh * 2"] pos
    by (simp_all add: smoothed_def sw_def sh_def)
  have Wf: "1 \<le> W * fac" "1 \<le> H * fac" using pos by (metis mult_mono zero_le_one order_trans mult_1)+
  have fa: "\<not> isNull fast" using scaled_not_null[OF sm(1) Wf] by (simp add: fast_def)
  have fi: "\<not> isNull final" using scaled_not_null[OF fa pos(3) pos(4)] by (simp add: final_def)
  note s2 = scaled_keep_width[OF sm(1) Wf, of FastTransformation, folded fast_def, unfolded sm]
  note s3 = scaled_keep_width[OF fa pos(3) pos(4), of SmoothTransformation, folded final_def]
  note fit = hybrid_fit[OF pos refl s2 refl s3]
  have em: "emitted (process cfg praises w) = [setDevicePixelRatio final dpr]"
    using process_no_fault[OF nf, of cfg w]
    by (simp add: Let_def final_def fast_def smoothed_def W_def H_def dpr_def sw_def sh_def fac_def)
  have sz: "img_width (setDevicePixelRatio final dpr) = img_width final"
       "img_height (setDevicePixelRatio final dpr) = img_height final"
       "isNull (setDevicePixelRatio final dpr) = isNull final"
    by (simp_all add: setDevicePixelRatio_def isNull_def)
  have "\<bar>img_width final * sh - img_height final * sw\<bar> \<le> max sw sh
      \<and> (img_width final = W \<or> img_height final = H) \<and> 1 \<le> img_width final
      \<and> img_width final \<le> W \<and> 1 \<le> img_height final \<and> img_height final \<le> H"
    using fit by simp
  then show ?thesis using em sz fi
    unfolding sw_def sh_def W_def H_def dpr_def by auto
qed

theorem process_preserves_aspect_ratio_witness:
  "emitted (process Config no_raise example_worker_odd) =
     [\<lparr> img_width = 150, img_height = 49, img_dpr = 3 / 2, img_content = 8 \<rparr>]
   \<and> \<bar>(150::int) * 333 - 49 * 1000\<bar> \<le> max 1000 333"
proof -
  have h1: "\<forall>x. \<not> no_raise x" by (simp add: no_raise_def)
  have h2: "1 \<le> thumbnail_upscale_factor Config" by (simp add: Config_def)
  have h3: "\<not> isNull (projection example_worker_odd)"
    by (simp add: isNull_def example_worker_odd_def)
  have h4: "1 \<le> py_int (of_int (width example_worker_odd)
                * devicePixelRatio (projection example_worker_odd))"
    by (simp add: py_int_def devicePixelRatio_def isNull_def example_worker_odd_def)
  have h5: "1 \<le> py_int (of_int (height example_worker_odd)
                * devicePixelRatio (projection example_worker_odd))"
    by (simp add: py_int_def devicePixelRatio_def isNull_def example_worker_odd_def)
  from process_preserves_aspect_ratio[OF h1 h2 h3 h4 h5]
  obtain img where "emitted (process Config no_raise example_worker_odd) = [img]" by blast
  moreover have "emitted (process Config no_raise example_worker_odd) =
     [\<lparr> img_width = 150, img_height = 49, img_dpr = 3 / 2, img_content = 8 \<rparr>]"
    by (simp add: eval_scaler)
  ultimately show ?thesis by simp
qed

text \<open>
  Claim C9. \<^verbatim>\<open>Worker.process\<close> does not read \<^verbatim>\<open>Config.use_hybrid_scaling\<close>: with the
  toggle false it makes the same three resampling calls as with the toggle true, not a
  single smooth resample to the physical target size.
\<close>

theorem process_non_hybrid_still_three_passes:
  "process (Config\<lparr> use_hybrid_scaling := False \<rparr>) no_raise example_worker =
     [Call_scaled \<lparr> img_width = 1920, img_height = 1080, img_dpr = 2, img_content = 7 \<rparr>
        3840 2160 KeepAspectRatio SmoothTransformation,
      Call_scaled \<lparr> img_width = 3840, img_height = 2160, img_dpr = 2, img_content = 7 \<rparr>
        1280 720 KeepAspectRatio FastTransformation,
      Call_scaled \<lparr> img_width = 1280, img_height = 720, img_dpr = 2, img_content = 7 \<rparr>
        640 360 KeepAspectRatio SmoothTransformation,
      Call_setDevicePixelRatio
        \<lparr> img_width = 640, img_height = 360, img_dpr = 2, img_content = 7 \<rparr> 2,
      Call_finished_emit \<lparr> img_width = 640, img_height = 360, img_dpr = 2, img_content = 7 \<rparr>]"
  by (simp add: eval_scaler)

section \<open>The panel controller\<close>

text \<open>
  Claim C10. With no active document, and a device pixel ratio that is not zero,
  \<^verbatim>\<open>get_thumbnail_size\<close> raises \<^verbatim>\<open>TypeError\<close>: it applies \<^verbatim>\<open>min\<close> to one number.
  \<^verbatim>\<open>update_thumbnail_display\<close> with a cached thumbnail raises the same error and
  changes nothing.
\<close>

theorem get_thumbnail_size_no_document:
  assumes "activeDocument h = None"
    and "ENABLE_DPI_CORRECTION cfg \<longrightarrow> devicePixelRatioF h \<noteq> 0"
  shows "get_thumbnail_size cfg h = Inl TypeError
       \<and> (current_thumbnail s \<noteq> None \<longrightarrow> update_thumbnail_display cfg h s = (Some TypeError, s))"
  using assms
  by (auto simp: get_thumbnail_size_def update_thumbnail_display_def try_bind_def
        py_truediv_def py_min_scalar_def Let_def)

theorem get_thumbnail_size_no_document_witness:
  "get_thumbnail_size Config (example_host None True) = Inl TypeError
   \<and> update_thumbnail_display Config (example_host None True)
        (new_canvasviewer\<lparr> current_thumbnail := Some QImage_null \<rparr>)
       = (Some TypeError, new_canvasviewer\<lparr> current_thumbnail := Some QImage_null \<rparr>)"
proof -
  have h1: "activeDocument (example_host None True) = None" by (simp add: example_host_def)
  have h2: "ENABLE_DPI_CORRECTION Config \<longrightarrow> devicePixelRatioF (example_host None True) \<noteq> 0"
    by (simp add: example_host_def)
  from get_thumbnail_size_no_document[OF h1 h2,
      of "new_canvasviewer\<lparr> current_thumbnail := Some QImage_null \<rparr>"]
  show ?thesis by simp
qed

subsection \<open>What each block leaves unchanged\<close>

lemma do_call_fields [simp]:
  "state (do_call c s) = state s"
  "idle_state (do_call c s) = idle_state s"
  "is_thread_running (do_call c s) = is_thread_running s"
  "current_thread (do_call c s) = current_thread s"
  "current_worker (do_call c s) = current_worker s"
  "current_thumbnail (do_call c s) = current_thumbnail s"
  "label (do_call c s) = label s"
  "idle_timer_active (do_call c s) = idle_timer_active s"
  "idle_signal_timer_active (do_call c s) = idle_signal_timer_active s"
  "threads (do_call c s) = threads s"
  "next_thread (do_call c s) = next_thread s"
  "workers (do_call c s) = workers s"
  "next_worker (do_call c s) = next_worker s"
  "aborted (do_call c s) = aborted s"
  "calls (do_call c s) = calls s @ [c]"
  by (simp_all add: do_call_def)

lemma thread_quit_fields [simp]:
  "state (thread_quit t s) = state s"
  "idle_state (thread_quit t s) = idle_state s"
  "is_thread_running (thread_quit t s) = is_thread_running s"
  "current_thread (thread_quit t s) = current_thread s"
  "current_worker (thread_quit t s) = current_worker s"
  "current_thumbnail (thread_quit t s) = current_thumbnail s"
  "label (thread_quit t s) = label s"
  "idle_timer_active (thread_quit t s) = idle_timer_active s"
  "idle_signal_timer_active (thread_quit t s) = idle_signal_timer_active s"
  "next_thread (thread_quit t s) = next_thread s"
  "workers (thread_quit t s) = workers s"
  "next_worker (thread_quit t s) = next_worker s"
  "aborted (thread_quit t s) = aborted s"
  "calls (thread_quit t s) = calls s @ [Thread_quit t]"
  "isRunning (threads (thread_quit t s) u) = isRunning (threads s u)"
  "started_receivers (threads (thread_quit t s) u) = started_receivers (threads s u)"
  by (simp_all add: thread_quit_def)

lemma thread_wait_fields [simp]:
  "fst (thread_wait h t ms s) = (\<not> isRunning (threads s t) \<or> wait_finished h)"
  "state (snd (thread_wait h t ms s)) = state s"
  "idle_state (snd (thread_wait h t ms s)) = idle_state s"
  "is_thread_running (snd (thread_wait h t ms s)) = is_thread_running s"
  "current_thread (snd (thread_wait h t ms s)) = current_thread s"
  "current_worker (snd (thread_wait h t ms s)) = current_worker s"
  "current_thumbnail (snd (thread_wait h t ms s)) = current_thumbnail s"
  "label (snd (thread_wait h t ms s)) = label s"
  "idle_timer_active (snd (thread_wait h t ms s)) = idle_timer_active s"
  "idle_signal_timer_active (snd (thread_wait h t ms s)) = idle_signal_timer_active s"
  "next_thread (snd (thread_wait h t ms s)) = next_thread s"
  "workers (snd (thread_wait h t ms s)) = workers s"
  "next_worker (snd (thread_wait h t ms s)) = next_worker s"
  "aborted (snd (thread_wait h t ms s)) = aborted s"
  "calls (snd (thread_wait h t ms s)) = calls s @ [Thread_wait t ms]"
  "isRunning (threads (snd (thread_wait h t ms s)) u) =
     (isRunning (threads s u) \<and> (u = t \<longrightarrow> \<not> wait_finished h))"
  "started_receivers (threads (snd (thread_wait h t ms s)) u) = started_receivers (threads s u)"
  by (auto simp: thread_wait_def Let_def)

lemma except_fields [simp]:
  "fst (stop_except s) = False"
  "is_thread_running (snd (stop_except s)) = False"
  "state (snd (stop_except s)) = state s"
  "idle_state (snd (stop_except s)) = idle_state s"
  "current_thread (snd (stop_except s)) = current_thread s"
  "current_worker (snd (stop_except s)) = current_worker s"
  "current_thumbnail (snd (stop_except s)) = current_thumbnail s"
  "label (snd (stop_except s)) = label s"
  "idle_timer_active (snd (stop_except s)) = idle_timer_active s"
  "idle_signal_timer_active (snd (stop_except s)) = idle_signal_timer_active s"
  "threads (snd (stop_except s)) = threads s"
  "next_thread (snd (stop_except s)) = next_thread s"
  "workers (snd (stop_except s)) = workers s"
  "next_worker (snd (stop_except s)) = next_worker s"
  "aborted (snd (stop_except s)) = aborted s"
  "state (create_except s) = state s"
  "idle_state (create_except s) = idle_state s"
  "current_thread (create_except s) = current_thread s"
  "current_worker (create_except s) = current_worker s"
  "current_thumbnail (create_except s) = current_thumbnail s"
  "label (create_except s) = label s"
  "idle_timer_active (create_except s) = idle_timer_active s"
  "idle_signal_timer_active (create_except s) = idle_signal_timer_active s"
  "threads (create_except s) = threads s"
  "next_thread (create_except s) = next_thread s"
  "workers (create_except s) = workers s"
  "next_worker (create_except s) = next_worker s"
  "aborted (create_except s) = aborted s"
  "is_thread_running (create_except s) = False"
  "calls (create_except s) = calls s @ [Print Err_create_thread]"
  "state (update_except s) = state s"
  "idle_state (update_except s) = idle_state s"
  "is_thread_running (update_except s) = is_thread_running s"
  "current_thread (update_except s) = current_thread s"
  "current_worker (update_except s) = current_worker s"
  "current_thumbnail (update_except s) = current_thumbnail s"
  "label (update_except s) = label s"
  "idle_timer_active (update_except s) = idle_timer_active s"
  "idle_signal_timer_active (update_except s) = idle_signal_timer_active s"
  "threads (update_except s) = threads s"
  "next_thread (update_except s) = next_thread s"
  "workers (update_except s) = workers s"
  "next_worker (update_except s) = next_worker s"
  "aborted (update_except s) = aborted s"
  "calls (update_except s) = calls s @ [Print Err_update_thumbnail]"
  "state (cleanup_except s) = state s"
  "idle_state (cleanup_except s) = idle_state s"
  "is_thread_running (cleanup_except s) = is_thread_running s"
  "current_thread (cleanup_except s) = current_thread s"
  "current_worker (cleanup_except s) = current_worker s"
  "current_thumbnail (cleanup_except s) = current_thumbnail s"
  "idle_timer_active (cleanup_except s) = idle_timer_active s"
  "idle_signal_timer_active (cleanup_except s) = idle_signal_timer_active s"
  "threads (cleanup_except s) = threads s"
  "next_thread (cleanup_except s) = next_thread s"
  "workers (cleanup_except s) = workers s"
  "next_worker (cleanup_except s) = next_worker s"
  "aborted (cleanup_except s) = aborted s"
  "label (cleanup_except s) = Label_text Text_no_document"
  "calls (cleanup_except s) = calls s @ [Print Err_cleanup, Label_setText Text_no_document]"
  by (simp_all add: stop_except_def create_except_def update_except_def cleanup_except_def do_call_def)

lemma stop_previous_frame [simp]:
  "state (snd (stop_previous h s)) = state s"
  "idle_state (snd (stop_previous h s)) = idle_state s"
  "current_thread (snd (stop_previous h s)) = current_thread s"
  "current_worker (snd (stop_previous h s)) = current_worker s"
  "current_thumbnail (snd (stop_previous h s)) = current_thumbnail s"
  "label (snd (stop_previous h s)) = label s"
  "idle_timer_active (snd (stop_previous h s)) = idle_timer_active s"
  "idle_signal_timer_active (snd (stop_previous h s)) = idle_signal_timer_active s"
  "next_thread (snd (stop_previous h s)) = next_thread s"
  "workers (snd (stop_previous h s)) = workers s"
  "next_worker (snd (stop_previous h s)) = next_worker s"
  "aborted (snd (stop_previous h s)) = aborted s"
  by (simp_all add: stop_previous_def split_beta Let_def split: option.splits)

lemma start_worker_frame [simp]:
  "state (start_worker h p tw th s) = state s"
  "idle_state (start_worker h p tw th s) = idle_state s"
  "label (start_worker h p tw th s) = label s"
  "current_thumbnail (start_worker h p tw th s) = current_thumbnail s"
  "idle_timer_active (start_worker h p tw th s) = idle_timer_active s"
  "idle_signal_timer_active (start_worker h p tw th s) = idle_signal_timer_active s"
  by (simp_all add: start_worker_def Let_def)

lemma refresh_thumbnail_frame [simp]:
  "state (snd (refresh_thumbnail cfg h s)) = state s"
  "idle_state (snd (refresh_thumbnail cfg h s)) = idle_state s"
  "current_thumbnail (snd (refresh_thumbnail cfg h s)) = current_thumbnail s"
  "idle_timer_active (snd (refresh_thumbnail cfg h s)) = idle_timer_active s"
  by (simp_all add: refresh_thumbnail_def split_beta Let_def split: option.splits sum.splits)

lemma update_thumbnail_frame [simp]:
  "state (update_thumbnail h img s) = state s"
  "idle_state (update_thumbnail h img s) = idle_state s"
  "is_thread_running (update_thumbnail h img s) = is_thread_running s"
  "current_thread (update_thumbnail h img s) = current_thread s"
  "current_worker (update_thumbnail h img s) = current_worker s"
  "idle_timer_active (update_thumbnail h img s) = idle_timer_active s"
  "idle_signal_timer_active (update_thumbnail h img s) = idle_signal_timer_active s"
  "threads (update_thumbnail h img s) = threads s"
  "next_thread (update_thumbnail h img s) = next_thread s"
  "workers (update_thumbnail h img s) = workers s"
  "next_worker (update_thumbnail h img s) = next_worker s"
  "aborted (update_thumbnail h img s) = aborted s"
  by (simp_all add: update_thumbnail_def)

lemma disconnect_never [simp]:
  "disconnect_started h t s = do_call (Print Err_disconnect_started) s"
  "disconnect_finished h w s = do_call (Print Err_disconnect_finished) s"
  by (simp_all add: disconnect_started_def disconnect_finished_def signal_receivers_def)

lemma cleanup_try_frame [simp]:
  "state (cleanup_try h s) = state s"
  "idle_state (cleanup_try h s) = idle_state s"
  "is_thread_running (cleanup_try h s) = is_thread_running s"
  "current_thread (cleanup_try h s) = current_thread s"
  "current_worker (cleanup_try h s) = current_worker s"
  "current_thumbnail (cleanup_try h s) = current_thumbnail s"
  "idle_timer_active (cleanup_try h s) = idle_timer_active s"
  "idle_signal_timer_active (cleanup_try h s) = idle_signal_timer_active s"
  "next_thread (cleanup_try h s) = next_thread s"
  "workers (cleanup_try h s) = workers s"
  "next_worker (cleanup_try h s) = next_worker s"
  "aborted (cleanup_try h s) = aborted s"
  "started_receivers (threads (cleanup_try h s) u) = started_receivers (threads s u)"
  by (simp_all add: cleanup_try_def split_beta Let_def split: option.splits)

lemma on_worker_finished_frame [simp]:
  "state (on_worker_finished h img s) = state s"
  "idle_state (on_worker_finished h img s) = idle_state s"
  "idle_timer_active (on_worker_finished h img s) = idle_timer_active s"
  "next_thread (on_worker_finished h img s) = next_thread s"
  "next_worker (on_worker_finished h img s) = next_worker s"
  "workers (on_worker_finished h img s) = workers s"
  "current_thread (on_worker_finished h img s) = None"
  "current_worker (on_worker_finished h img s) = None"
  "started_receivers (threads (on_worker_finished h img s) u) = started_receivers (threads s u)"
  by (simp_all add: on_worker_finished_def Let_def)

subsection \<open>The press/release state machine\<close>

lemma button_bit_tracked:
  "button_bit b = 0 \<longleftrightarrow> b = Button_left"
  "button_bit b = Suc 0 \<longleftrightarrow> b = Button_right"
  "button_bit b = 2 \<longleftrightarrow> b = Button_middle"
  by (cases b; simp)+

lemma bit_buttons_flags:
  "bit (buttons_flags held) n \<longleftrightarrow> (\<exists>b \<in> set held. button_bit b = n)"
  by (induction held) (auto simp: bit_or_iff bit_exp_iff)

lemma is_pressed_bit:
  "is_pressed mb LeftButton \<longleftrightarrow> bit mb 0"
  "is_pressed mb RightButton \<longleftrightarrow> bit mb 1"
  "is_pressed mb MiddleButton \<longleftrightarrow> bit mb 2"
proof -
  show "is_pressed mb LeftButton \<longleftrightarrow> bit mb 0"
    using and_exp_eq_0_iff_not_bit[of mb 0] by (simp add: is_pressed_def LeftButton_def)
  show "is_pressed mb RightButton \<longleftrightarrow> bit mb 1"
    using and_exp_eq_0_iff_not_bit[of mb 1] by (simp add: is_pressed_def RightButton_def)
  show "is_pressed mb MiddleButton \<longleftrightarrow> bit mb 2"
    using and_exp_eq_0_iff_not_bit[of mb 2] by (simp add: is_pressed_def MiddleButton_def)
qed

lemma is_pressed_tracked:
  assumes "mouseButtons h = buttons_flags held"
  shows "(is_pressed (mouseButtons h) LeftButton \<or> is_pressed (mouseButtons h) RightButton
          \<or> is_pressed (mouseButtons h) MiddleButton) \<longleftrightarrow> tracked_pressed held"
  unfolding assms is_pressed_bit bit_buttons_flags tracked_pressed_def
  using button_bit_tracked by (metis One_nat_def)

lemma check_state_state:
  assumes "state s = 0 \<or> state s = 1"
  shows "state (snd (check_state cfg h s)) =
     (if is_pressed (mouseButtons h) LeftButton \<or> is_pressed (mouseButtons h) RightButton
          \<or> is_pressed (mouseButtons h) MiddleButton then 0 else 1)"
  using assms
  by (auto simp: check_state_def Let_def split_beta split: option.splits)

lemma step_state_other:
  assumes "\<not> is_CheckState ev"
  shows "state (step cfg ev s) = state s"
  using assms
  by (cases ev) (simp_all add: step_def canvasChanged_def enter_idle_state_def
        send_idle_signal_def split: list.splits)

lemma run_append: "run cfg (xs @ ys) s = run cfg ys (run cfg xs s)"
  by (induction xs arbitrary: s) simp_all

lemma run_state_other:
  assumes "\<forall>ev \<in> set evs. \<not> is_CheckState ev"
  shows "state (run cfg evs s) = state s"
  using assms by (induction evs arbitrary: s) (simp_all add: step_state_other)

lemma idle_invariant_check_state:
  assumes "idle_invariant s"
  shows "idle_invariant (snd (check_state cfg h s))"
  using assms
  by (auto simp: idle_invariant_def check_state_def Let_def split_beta split: option.splits)

lemma idle_invariant_step:
  assumes "idle_invariant s"
  shows "idle_invariant (step cfg ev s)"
proof (cases ev)
  case (CheckState h)
  then show ?thesis using idle_invariant_check_state[OF assms] assms by (simp add: step_def)
next
  case (CanvasChanged h)
  then show ?thesis using assms by (simp add: step_def canvasChanged_def idle_invariant_def)
next
  case EnterIdleState
  then show ?thesis using assms by (auto simp: step_def enter_idle_state_def idle_invariant_def)
next
  case (SendIdleSignal h)
  then show ?thesis using assms by (simp add: step_def send_idle_signal_def idle_invariant_def)
next
  case (WorkerFinished w praises h)
  then show ?thesis using assms by (simp add: step_def idle_invariant_def split: list.splits)
next
  case (ThreadExits t)
  then show ?thesis using assms by (simp add: step_def idle_invariant_def)
qed

lemma idle_invariant_run:
  assumes "idle_invariant s"
  shows "idle_invariant (run cfg evs s)"
  using assms by (induction evs arbitrary: s) (simp_all add: idle_invariant_step)

lemma idle_invariant_init: "idle_invariant (init cfg h)"
  by (simp add: init_def idle_invariant_def new_canvasviewer_def)

text \<open>
  Claim C6. Take any run of the widget from its construction in which \<^verbatim>\<open>check_state\<close>
  ticks at least once, the process being alive at the last tick, and let \<open>held\<close> be the
  buttons held at that tick, which the host reports as the flags \<open>buttons_flags held\<close>.
  Then \<^verbatim>\<open>state\<close> is 0 exactly when the left, the right or the middle button is among
  those held, and 1 exactly when none of the three is, whatever further buttons are held;
  no other event changes \<^verbatim>\<open>state\<close>. The idle flag is set only when none of the three
  is held.
\<close>

theorem state_active_iff_pressed:
  assumes "\<forall>ev \<in> set later. \<not> is_CheckState ev"
    and "\<not> aborted (run cfg evs (init cfg h0))"
    and "mouseButtons h = buttons_flags held"
  shows "(state (run cfg (evs @ CheckState h # later) (init cfg h0)) = 0 \<longleftrightarrow> tracked_pressed held)
       \<and> (state (run cfg (evs @ CheckState h # later) (init cfg h0)) = 1 \<longleftrightarrow> \<not> tracked_pressed held)
       \<and> (idle_state (run cfg (evs @ CheckState h # later) (init cfg h0)) \<longrightarrow> \<not> tracked_pressed held)"
proof -
  have inv: "idle_invariant (run cfg evs (init cfg h0))"
    by (rule idle_invariant_run[OF idle_invariant_init])
  then have "state (run cfg evs (init cfg h0)) = 0 \<or> state (run cfg evs (init cfg h0)) = 1"
    by (simp add: idle_invariant_def)
  then have "state (step cfg (CheckState h) (run cfg evs (init cfg h0)))
      = (if tracked_pressed held then 0 else 1)"
    using assms(2) is_pressed_tracked[OF assms(3)] by (simp add: step_def check_state_state)
  then have st: "state (run cfg (evs @ CheckState h # later) (init cfg h0))
      = (if tracked_pressed held then 0 else 1)"
    using run_state_other[OF assms(1)] by (simp add: run_append)
  have "idle_invariant (run cfg (evs @ CheckState h # later) (init cfg h0))"
    by (rule idle_invariant_run[OF idle_invariant_init])
  then have "idle_state (run cfg (evs @ CheckState h # later) (init cfg h0))
      \<longrightarrow> state (run cfg (evs @ CheckState h # later) (init cfg h0)) = 1"
    by (simp add: idle_invariant_def)
  then show ?thesis using st by (simp split: if_splits)
qed

theorem state_active_iff_pressed_witness:
  "state (run Config ([CanvasChanged (example_host None True)]
            @ CheckState ((example_host None True)\<lparr> mouseButtons := 8 \<rparr>) # [EnterIdleState])
          (init Config (example_host None True))) = 1
   \<and> state (run Config ([CanvasChanged (example_host None True)]
            @ CheckState ((example_host None True)\<lparr> mouseButtons := 5 \<rparr>) # [EnterIdleState])
          (init Config (example_host None True))) = 0"
proof -
  have h: "\<forall>ev \<in> set [EnterIdleState]. \<not> is_CheckState ev" by simp
  have a: "\<not> aborted (run Config [CanvasChanged (example_host None True)]
      (init Config (example_host None True)))"
    by (simp add: step_def canvasChanged_def refresh_thumbnail_def init_def
          new_canvasviewer_def example_host_def)
  have f1: "mouseButtons ((example_host None True)\<lparr> mouseButtons := 8 \<rparr>)
      = buttons_flags [Button_further 0]"
    by simp
  have f2: "mouseButtons ((example_host None True)\<lparr> mouseButtons := 5 \<rparr>)
      = buttons_flags [Button_left, Button_middle]"
    by simp
  have p1: "\<not> tracked_pressed [Button_further 0]" by (simp add: tracked_pressed_def)
  have p2: "tracked_pressed [Button_left, Button_middle]" by (simp add: tracked_pressed_def)
  from state_active_iff_pressed[OF h a f1] state_active_iff_pressed[OF h a f2] p1 p2
  show ?thesis by blast
qed

subsection \<open>The refresh\<close>

lemma thread_update_same:
  "isRunning th \<Longrightarrow> th\<lparr> quit_requested := q, isRunning := True \<rparr> = th\<lparr> quit_requested := q \<rparr>"
  by (cases th) simp

lemma stop_previous_timeout:
  assumes "is_thread_running s" "current_thread s = Some t" "isRunning (threads s t)"
    and "\<not> raises h Stop_isRunning" "\<not> raises h Stop_quit" "\<not> raises h Stop_wait"
    and "\<not> wait_finished h"
  shows "stop_previous h s =
    (False, s\<lparr> threads := (threads s)(t := (threads s t)\<lparr> quit_requested := True \<rparr>),
               calls := calls s @ [Thread_quit t, Thread_wait t 100, Print Warn_thread_not_exited],
               is_thread_running := False \<rparr>)"
  using assms
  by (simp add: stop_previous_def thread_quit_def thread_wait_def do_call_def Let_def
        thread_update_same)

lemma refresh_thumbnail_timeout:
  assumes "activeDocument h = Some doc"
    and "is_thread_running s" "current_thread s = Some t" "isRunning (threads s t)"
    and "\<not> raises h Stop_isRunning" "\<not> raises h Stop_quit" "\<not> raises h Stop_wait"
    and "\<not> wait_finished h"
  shows "refresh_thumbnail cfg h s =
    (None, s\<lparr> threads := (threads s)(t := (threads s t)\<lparr> quit_requested := True \<rparr>),
              calls := calls s @ [Thread_quit t, Thread_wait t 100, Print Warn_thread_not_exited],
              is_thread_running := False \<rparr>)"
  using assms(1) stop_previous_timeout[OF assms(2-8)]
  by (simp add: refresh_thumbnail_def)



subsection \<open>Concrete runs\<close>

lemmas eval_host = example_host_def example_document_def no_raise_def Config_def
lemmas eval_size = get_thumbnail_size_def try_bind_def py_truediv_def py_min_scalar_def py_int_def
lemmas eval_refresh = refresh_thumbnail_def stop_previous_def stop_except_def start_worker_def
  create_except_def thread_quit_def thread_wait_def do_call_def doc_projection_def
  setDevicePixelRatio_def isNull_def QThread_def destroys_running_def
lemmas eval_finished = on_worker_finished_def update_thumbnail_def update_except_def
  cleanup_try_def cleanup_except_def



lemma init_eval:
  "is_thread_running (init Config (example_host (Some (example_document 3)) True))"
  "current_thread (init Config (example_host (Some (example_document 3)) True)) = Some 0"
  "current_worker (init Config (example_host (Some (example_document 3)) True)) = Some 0"
  "next_thread (init Config (example_host (Some (example_document 3)) True)) = 1"
  "next_worker (init Config (example_host (Some (example_document 3)) True)) = 1"
  "calls (init Config (example_host (Some (example_document 3)) True)) = [Thread_start 0]"
  "isRunning (threads (init Config (example_host (Some (example_document 3)) True)) 0)"
  "started_receivers (threads (init Config (example_host (Some (example_document 3)) True)) 0) = 1"
  "workers (init Config (example_host (Some (example_document 3)) True)) 0 =
     \<lparr> projection = \<lparr> img_width = 1920, img_height = 1080, img_dpr = 1, img_content = 3 \<rparr>,
       width = 320, height = 180, finished_receivers = 1 \<rparr>"
  "label (init Config (example_host (Some (example_document 3)) True)) = Label_text Text_label"
  "\<not> aborted (init Config (example_host (Some (example_document 3)) True))"
  by (simp_all add: init_def new_canvasviewer_def eval_refresh eval_host eval_size Let_def)

text \<open>
  Claim C1 fails in the code. The widget is constructed with document 3 open, which starts
  thread 0. A document change whose stop of thread 0 does not complete within the wait
  resets the in-flight flag although thread 0 is still running, where the comments of the
  source let a refresh through only when no thread is running. At the next state-check
  tick, with no button pressed, the flag being false, the refresh skips the stop: a second
  worker and a second thread are created while thread 0 runs, and rebinding
  \<^verbatim>\<open>_current_thread\<close> destroys the running thread 0, on which the toolkit aborts the
  process.
\<close>

theorem refresh_while_thread_running:
  "isRunning (threads (run Config
      [CanvasChanged (example_host (Some (example_document 4)) False)]
      (init Config (example_host (Some (example_document 3)) True))) 0)
   \<and> \<not> is_thread_running (run Config
      [CanvasChanged (example_host (Some (example_document 4)) False)]
      (init Config (example_host (Some (example_document 3)) True)))
   \<and> isRunning (threads (run Config
      [CanvasChanged (example_host (Some (example_document 4)) False),
       CheckState (example_host (Some (example_document 4)) True)]
      (init Config (example_host (Some (example_document 3)) True))) 0)
   \<and> next_worker (run Config
      [CanvasChanged (example_host (Some (example_document 4)) False),
       CheckState (example_host (Some (example_document 4)) True)]
      (init Config (example_host (Some (example_document 3)) True))) = 2
   \<and> next_thread (run Config
      [CanvasChanged (example_host (Some (example_document 4)) False),
       CheckState (example_host (Some (example_document 4)) True)]
      (init Config (example_host (Some (example_document 3)) True))) = 2
   \<and> aborted (run Config
      [CanvasChanged (example_host (Some (example_document 4)) False),
       CheckState (example_host (Some (example_document 4)) True)]
      (init Config (example_host (Some (example_document 3)) True)))"
  by (simp add: step_def canvasChanged_def check_state_def is_pressed_def init_def
        new_canvasviewer_def eval_refresh eval_host eval_size Let_def)

text \<open>
  Claim C2 as stated fails: the in-flight flag is true before the refresh whose stop
  times out and false after it.
\<close>

theorem refresh_timeout_resets_flag:
  "is_thread_running (init Config (example_host (Some (example_document 3)) True))
   \<and> \<not> is_thread_running (snd (refresh_thumbnail Config
          (example_host (Some (example_document 4)) False)
          (init Config (example_host (Some (example_document 3)) True))))"
proof -
  have h3: "activeDocument (example_host (Some (example_document 4)) False)
      = Some (example_document 4)"
    "\<not> raises (example_host (Some (example_document 4)) False) Stop_isRunning"
    "\<not> raises (example_host (Some (example_document 4)) False) Stop_quit"
    "\<not> raises (example_host (Some (example_document 4)) False) Stop_wait"
    "\<not> wait_finished (example_host (Some (example_document 4)) False)"
    by (simp_all add: example_host_def no_raise_def)
  show ?thesis
    using refresh_thumbnail_timeout[OF h3(1) init_eval(1) init_eval(2) init_eval(7) h3(2-5)]
      init_eval(1) by simp
qed

text \<open>
  Claim C2, as amended. When a refresh is requested while the current thread is running
  and the thread does not stop within the wait, \<^verbatim>\<open>refresh_thumbnail\<close> returns normally
  without creating a task: it has asked the thread to quit, printed a warning and reset
  the in-flight flag to false, and changed nothing else. With the flag false, the next
  idle tick of a widget in idle state calls \<^verbatim>\<open>refresh_thumbnail\<close> again.
\<close>

theorem refresh_timeout_soft_failure:
  assumes "activeDocument h = Some doc"
    and "is_thread_running s" "current_thread s = Some t" "isRunning (threads s t)"
    and "\<not> raises h Stop_isRunning" "\<not> raises h Stop_quit" "\<not> raises h Stop_wait"
    and "\<not> wait_finished h"
  shows "refresh_thumbnail cfg h s =
      (None, s\<lparr> threads := (threads s)(t := (threads s t)\<lparr> quit_requested := True \<rparr>),
                calls := calls s @ [Thread_quit t, Thread_wait t 100, Print Warn_thread_not_exited],
                is_thread_running := False \<rparr>)
    \<and> (idle_state s \<longrightarrow>
          send_idle_signal cfg h' (snd (refresh_thumbnail cfg h s))
            = refresh_thumbnail cfg h' (snd (refresh_thumbnail cfg h s)))"
  by (simp add: refresh_thumbnail_timeout[OF assms] send_idle_signal_def)

theorem refresh_timeout_soft_failure_witness:
  "fst (refresh_thumbnail Config (example_host (Some (example_document 4)) False)
          (init Config (example_host (Some (example_document 3)) True))) = None
   \<and> calls (snd (refresh_thumbnail Config (example_host (Some (example_document 4)) False)
          (init Config (example_host (Some (example_document 3)) True))))
       = [Thread_start 0, Thread_quit 0, Thread_wait 0 100, Print Warn_thread_not_exited]
   \<and> current_worker (snd (refresh_thumbnail Config (example_host (Some (example_document 4)) False)
          (init Config (example_host (Some (example_document 3)) True)))) = Some 0"
proof -
  have h3: "activeDocument (example_host (Some (example_document 4)) False)
      = Some (example_document 4)"
    "\<not> raises (example_host (Some (example_document 4)) False) Stop_isRunning"
    "\<not> raises (example_host (Some (example_document 4)) False) Stop_quit"
    "\<not> raises (example_host (Some (example_document 4)) False) Stop_wait"
    "\<not> wait_finished (example_host (Some (example_document 4)) False)"
    by (simp_all add: example_host_def no_raise_def)
  from refresh_timeout_soft_failure[OF h3(1) init_eval(1) init_eval(2) init_eval(7) h3(2-5),
      of Config "example_host None True"]
  show ?thesis by (simp add: init_eval)
qed

text \<open>
  Claim C3 fails in the code. The first task of a widget constructed with document 3 open
  completes with its image, and no toolkit call raises. The handler delivers the image
  and then stops the thread, schedules the deletion of worker and thread, clears both
  references and resets the flag; but it disconnects neither signal: each
  \<^verbatim>\<open>receivers()\<close> raises \<^verbatim>\<open>AttributeError\<close>, the inner handler prints the error, and
  \<^verbatim>\<open>disconnect()\<close> is never reached. Both signals keep their receiver.
\<close>

theorem on_worker_finished_never_disconnects:
  "calls (on_worker_finished (example_host (Some (example_document 3)) True)
        \<lparr> img_width = 320, img_height = 180, img_dpr = 1, img_content = 3 \<rparr>
        (init Config (example_host (Some (example_document 3)) True)))
     = [Thread_start 0,
        Label_setPixmap \<lparr> img_width = 320, img_height = 180, img_dpr = 1, img_content = 3 \<rparr>,
        Print Err_disconnect_started, Print Err_disconnect_finished,
        Thread_quit 0, Thread_wait 0 200, Worker_deleteLater 0, Thread_deleteLater 0]
   \<and> started_receivers (threads (on_worker_finished (example_host (Some (example_document 3)) True)
        \<lparr> img_width = 320, img_height = 180, img_dpr = 1, img_content = 3 \<rparr>
        (init Config (example_host (Some (example_document 3)) True))) 0) = 1
   \<and> finished_receivers (workers (on_worker_finished (example_host (Some (example_document 3)) True)
        \<lparr> img_width = 320, img_height = 180, img_dpr = 1, img_content = 3 \<rparr>
        (init Config (example_host (Some (example_document 3)) True))) 0) = 1"
  by (simp add: eval_finished disconnect_started_def disconnect_finished_def
        signal_receivers_def init_def new_canvasviewer_def eval_refresh eval_host eval_size Let_def)

subsection \<open>The refresh does not read the interaction state\<close>









subsection \<open>A completion under a cooperative host\<close>







subsection \<open>A document change while a task is in flight\<close>







end
